theory Spec2Isabelle
  imports Complex_Main "HOL-Library.Sublist"
begin

section \<open>JavaScript numbers\<close>

text \<open>
  Every quantity of the simulator is a JavaScript \<^verbatim>\<open>number\<close>. The model keeps the
  three special values of the language apart from the ordinary ones and computes on
  ordinary values with exact real arithmetic: \<open>Num r\<close> is the number \<open>r\<close>, \<open>PInf\<close>
  and \<open>NInf\<close> are \<^verbatim>\<open>Infinity\<close> and \<^verbatim>\<open>-Infinity\<close>, \<open>NaN\<close> is \<^verbatim>\<open>NaN\<close>.
  Rounding to 53 bits, overflow of very large magnitudes to \<^verbatim>\<open>Infinity\<close>, underflow and
  the sign of zero are not modelled: a statement "equal within floating-point tolerance"
  is read as equality of the exact values. Division by zero, the square root of a
  negative number, \<open>\<infinity> - \<infinity>\<close> and \<open>0 * \<infinity>\<close> give the special values they give in
  JavaScript, and every comparison with \<open>NaN\<close> is false.
\<close>

datatype jsnum = Num real | PInf | NInf | NaN

fun js_uminus :: "jsnum \<Rightarrow> jsnum" where
  "js_uminus (Num a) = Num (- a)"
| "js_uminus PInf = NInf"
| "js_uminus NInf = PInf"
| "js_uminus NaN = NaN"

fun js_add :: "jsnum \<Rightarrow> jsnum \<Rightarrow> jsnum" where
  "js_add (Num a) (Num b) = Num (a + b)"
| "js_add NaN _ = NaN"
| "js_add _ NaN = NaN"
| "js_add PInf NInf = NaN"
| "js_add NInf PInf = NaN"
| "js_add PInf _ = PInf"
| "js_add _ PInf = PInf"
| "js_add NInf _ = NInf"
| "js_add _ NInf = NInf"

definition js_sub :: "jsnum \<Rightarrow> jsnum \<Rightarrow> jsnum" where
  "js_sub x y = js_add x (js_uminus y)"

text \<open>The infinity with the sign of a non-zero real.\<close>

definition inf_of_sign :: "real \<Rightarrow> jsnum" where
  "inf_of_sign a = (if a = 0 then NaN else if 0 < a then PInf else NInf)"

fun js_mul :: "jsnum \<Rightarrow> jsnum \<Rightarrow> jsnum" where
  "js_mul (Num a) (Num b) = Num (a * b)"
| "js_mul NaN _ = NaN"
| "js_mul _ NaN = NaN"
| "js_mul (Num a) PInf = inf_of_sign a"
| "js_mul (Num a) NInf = inf_of_sign (- a)"
| "js_mul PInf (Num b) = inf_of_sign b"
| "js_mul NInf (Num b) = inf_of_sign (- b)"
| "js_mul PInf PInf = PInf"
| "js_mul NInf NInf = PInf"
| "js_mul PInf NInf = NInf"
| "js_mul NInf PInf = NInf"

fun js_div :: "jsnum \<Rightarrow> jsnum \<Rightarrow> jsnum" where
  "js_div (Num a) (Num b) = (if b = 0 then inf_of_sign a else Num (a / b))"
| "js_div NaN _ = NaN"
| "js_div _ NaN = NaN"
| "js_div (Num a) PInf = Num 0"
| "js_div (Num a) NInf = Num 0"
| "js_div PInf (Num b) = (if 0 \<le> b then PInf else NInf)"
| "js_div NInf (Num b) = (if 0 \<le> b then NInf else PInf)"
| "js_div _ _ = NaN"

fun js_sqrt :: "jsnum \<Rightarrow> jsnum" where
  "js_sqrt (Num a) = (if a < 0 then NaN else Num (sqrt a))"
| "js_sqrt PInf = PInf"
| "js_sqrt NInf = NaN"
| "js_sqrt NaN = NaN"

fun js_lt :: "jsnum \<Rightarrow> jsnum \<Rightarrow> bool" where
  "js_lt (Num a) (Num b) = (a < b)"
| "js_lt (Num a) PInf = True"
| "js_lt NInf (Num b) = True"
| "js_lt NInf PInf = True"
| "js_lt _ _ = False"

fun js_le :: "jsnum \<Rightarrow> jsnum \<Rightarrow> bool" where
  "js_le (Num a) (Num b) = (a \<le> b)"
| "js_le (Num a) PInf = True"
| "js_le NInf (Num b) = True"
| "js_le NInf PInf = True"
| "js_le PInf PInf = True"
| "js_le NInf NInf = True"
| "js_le _ _ = False"

definition js_gt :: "jsnum \<Rightarrow> jsnum \<Rightarrow> bool" where
  "js_gt x y = js_lt y x"

definition js_ge :: "jsnum \<Rightarrow> jsnum \<Rightarrow> bool" where
  "js_ge x y = js_le y x"



text \<open>
  Truthiness of an optional number (\<^verbatim>\<open>amountA?: number\<close>): \<^verbatim>\<open>undefined\<close>, \<^verbatim>\<open>0\<close> and
  \<^verbatim>\<open>NaN\<close> are falsy. \<open>nullish_zero\<close> is \<^verbatim>\<open>x ?? 0\<close>.
\<close>

fun truthy :: "jsnum option \<Rightarrow> bool" where
  "truthy None = False"
| "truthy (Some (Num a)) = (a \<noteq> 0)"
| "truthy (Some NaN) = False"
| "truthy (Some _) = True"

fun nullish_zero :: "jsnum option \<Rightarrow> jsnum" where
  "nullish_zero None = Num 0"
| "nullish_zero (Some x) = x"


section \<open>The data model\<close>

text \<open>
  The interface \<^verbatim>\<open>Simulation\<close>. A field declared with \<^verbatim>\<open>?\<close> may be
  \<^verbatim>\<open>undefined\<close> and is an \<open>option\<close>. The field \<^verbatim>\<open>id\<close> is \<open>id_sim\<close> and the
  optional field \<^verbatim>\<open>initialInvestment\<close> is \<open>initialInvestment_opt\<close>, since the
  plain names are taken.
\<close>

datatype short_token = A | B

record simulation =
  id_sim :: string
  protocol :: string
  tokenA :: string
  tokenB :: string
  initialInvestment_opt :: "jsnum option"
  amountA :: "jsnum option"
  amountB :: "jsnum option"
  apr :: jsnum
  duration :: jsnum
  lowerPriceBound :: jsnum
  upperPriceBound :: jsnum
  startDate :: string
  initialPriceA :: jsnum
  initialPriceB :: jsnum
  latestPriceA :: jsnum
  latestPriceB :: jsnum
  tradeVolume :: "jsnum option"
  volumeFee :: "jsnum option"
  isHedgeEnabled :: "bool option"
  shortAmount :: jsnum
  fundingRate :: jsnum
  shortToken :: short_token


section \<open>The valuation engine\<close>

text \<open>
  The constant-product factor, the expression
  \<^verbatim>\<open>(2 * Math.sqrt(priceRatioChange)) / (1 + priceRatioChange) - 1\<close> of
  \<^verbatim>\<open>calculations\<close> and of \<^verbatim>\<open>chartData\<close>.
\<close>

definition impermanentLossFactor :: "jsnum \<Rightarrow> jsnum" where
  "impermanentLossFactor priceRatioChange =
     js_sub (js_div (js_mul (Num 2) (js_sqrt priceRatioChange))
                    (js_add (Num 1) priceRatioChange))
            (Num 1)"

text \<open>
  The short leg, the expression assigned to \<^verbatim>\<open>shortPnl\<close> in both engines, with the
  current prices as arguments.
\<close>

definition shortPnlOf :: "simulation \<Rightarrow> jsnum \<Rightarrow> jsnum \<Rightarrow> jsnum" where
  "shortPnlOf sim priceA priceB =
     (case shortToken sim of
        A \<Rightarrow> (if js_gt (initialPriceA sim) (Num 0)
              then js_mul (shortAmount sim)
                     (js_sub (Num 1) (js_div priceA (initialPriceA sim)))
              else Num 0)
      | B \<Rightarrow> (if js_gt (initialPriceB sim) (Num 0)
              then js_mul (shortAmount sim)
                     (js_sub (Num 1) (js_div priceB (initialPriceB sim)))
              else Num 0))"

record price_range =
  range_min :: jsnum
  range_max :: jsnum
  range_current :: jsnum
  range_isInRange :: bool

record snapshot =
  initialInvestment :: jsnum
  earnedFees :: jsnum
  impermanentLoss :: jsnum
  impermanentLossPct :: jsnum
  holdValue :: jsnum
  finalLpValue :: jsnum
  lpNetReturn :: jsnum
  lpNetReturnPct :: jsnum
  shortPnl :: jsnum
  fundingPnl :: jsnum
  totalNetReturn :: jsnum
  totalNetReturnPct :: jsnum
  finalTotalValue :: jsnum
  isInRange :: bool
  priceRange :: price_range

text \<open>
  \<^verbatim>\<open>calculations\<close>. In the source the first branch also assigns a local
  \<^verbatim>\<open>effectiveLpValue\<close> (a liquidity-based valuation) when the latest ratio is below the
  lower bound; that local is never read, and the arithmetic that computes it cannot
  throw, so it has no part in the result and is left out here.
\<close>

definition calculations :: "simulation \<Rightarrow> snapshot" where
  "calculations sim =
    (let initialAmountA = nullish_zero (amountA sim);
         initialAmountB = nullish_zero (amountB sim);
         initialInvestment = js_add (js_mul initialAmountA (initialPriceA sim))
                                    (js_mul initialAmountB (initialPriceB sim));
         holdValue = js_add (js_mul initialAmountA (latestPriceA sim))
                            (js_mul initialAmountB (latestPriceB sim));
         latestPriceRatio = (if js_gt (latestPriceB sim) (Num 0)
                             then js_div (latestPriceA sim) (latestPriceB sim) else Num 0);
         initialPriceRatio = (if js_gt (initialPriceB sim) (Num 0)
                              then js_div (initialPriceA sim) (initialPriceB sim) else Num 0);
         isInRange = (js_ge latestPriceRatio (lowerPriceBound sim) \<and>
                      js_le latestPriceRatio (upperPriceBound sim));
         finalLpValue =
           (if js_gt initialPriceRatio (Num 0) \<and> js_gt latestPriceRatio (Num 0) \<and>
               js_gt (upperPriceBound sim) (lowerPriceBound sim)
            then (let priceRatioChange = js_div latestPriceRatio initialPriceRatio
                  in js_mul holdValue
                       (js_add (Num 1) (impermanentLossFactor priceRatioChange)))
            else holdValue);
         impermanentLoss = js_sub finalLpValue holdValue;
         impermanentLossPct = (if js_gt holdValue (Num 0)
                               then js_mul (js_div impermanentLoss holdValue) (Num 100)
                               else Num 0);
         earnedFees = js_mul (js_mul initialInvestment (js_div (apr sim) (Num 100)))
                             (js_div (duration sim) (Num 365));
         lpNetReturn = js_sub (js_add finalLpValue earnedFees) initialInvestment;
         lpNetReturnPct = (if js_gt initialInvestment (Num 0)
                           then js_mul (js_div lpNetReturn initialInvestment) (Num 100)
                           else Num 0);
         shortPnl = (if isHedgeEnabled sim = Some True
                     then shortPnlOf sim (latestPriceA sim) (latestPriceB sim)
                     else Num 0);
         fundingPnl = (if isHedgeEnabled sim = Some True
                       then js_mul (js_mul (js_mul (Num (- 1)) (shortAmount sim))
                                           (js_div (fundingRate sim) (Num 100)))
                                   (duration sim)
                       else Num 0);
         totalNetReturn = js_add (js_add lpNetReturn shortPnl) fundingPnl;
         totalNetReturnPct = (if js_gt initialInvestment (Num 0)
                              then js_mul (js_div totalNetReturn initialInvestment) (Num 100)
                              else Num 0);
         finalTotalValue = js_add initialInvestment totalNetReturn
     in \<lparr> initialInvestment = initialInvestment, earnedFees = earnedFees,
          impermanentLoss = impermanentLoss, impermanentLossPct = impermanentLossPct,
          holdValue = holdValue, finalLpValue = finalLpValue, lpNetReturn = lpNetReturn,
          lpNetReturnPct = lpNetReturnPct, shortPnl = shortPnl, fundingPnl = fundingPnl,
          totalNetReturn = totalNetReturn, totalNetReturnPct = totalNetReturnPct,
          finalTotalValue = finalTotalValue, isInRange = isInRange,
          priceRange = \<lparr> range_min = lowerPriceBound sim, range_max = upperPriceBound sim,
                         range_current = latestPriceRatio, range_isInRange = isInRange \<rparr> \<rparr>)"

section \<open>The projection engine\<close>

text \<open>
  The locals of one iteration of the loop of \<^verbatim>\<open>chartData\<close>, for the day \<open>day\<close>.
  The arguments \<open>amtA\<close>, \<open>amtB\<close> are the amounts (known to be numbers once the
  guard of \<^verbatim>\<open>chartData\<close> has passed) and \<open>invest\<close> is the local
  \<^verbatim>\<open>initialInvestment\<close> computed before the loop.
\<close>

record day_locals =
  progress :: jsnum
  currentPriceA :: jsnum
  currentPriceB :: jsnum
  day_holdValue :: jsnum
  day_earnedFees :: jsnum
  lpValue :: jsnum
  day_shortPnl :: jsnum
  day_fundingPnl :: jsnum
  totalValue :: jsnum

definition dayLocals :: "simulation \<Rightarrow> jsnum \<Rightarrow> jsnum \<Rightarrow> jsnum \<Rightarrow> nat \<Rightarrow> day_locals" where
  "dayLocals sim amtA amtB invest day =
    (let progress = (if js_gt (duration sim) (Num 0)
                     then js_div (Num (real day)) (duration sim) else Num 1);
         currentPriceA = js_add (initialPriceA sim)
                           (js_mul (js_sub (latestPriceA sim) (initialPriceA sim)) progress);
         currentPriceB = (if js_gt (initialPriceB sim) (Num 0)
                          then js_add (initialPriceB sim)
                                 (js_mul (js_sub (latestPriceB sim) (initialPriceB sim)) progress)
                          else Num 1);
         holdValue = js_add (js_mul amtA currentPriceA) (js_mul amtB currentPriceB);
         earnedFees = js_mul (js_mul invest (js_div (apr sim) (Num 100)))
                             (js_div (Num (real day)) (Num 365));
         initialPriceRatio = (if js_gt (initialPriceB sim) (Num 0)
                              then js_div (initialPriceA sim) (initialPriceB sim) else Num 0);
         currentPriceRatio = (if js_gt currentPriceB (Num 0)
                              then js_div currentPriceA currentPriceB else Num 0);
         lpValue =
           (if js_gt initialPriceRatio (Num 0) \<and> js_gt currentPriceRatio (Num 0)
            then (let priceRatioChange = js_div currentPriceRatio initialPriceRatio
                  in if js_gt priceRatioChange (Num 0)
                     then js_mul holdValue
                            (js_add (Num 1) (impermanentLossFactor priceRatioChange))
                     else holdValue)
            else holdValue);
         shortPnl = (if isHedgeEnabled sim = Some True
                     then shortPnlOf sim currentPriceA currentPriceB else Num 0);
         fundingPnl = (if isHedgeEnabled sim = Some True
                       then js_mul (js_mul (js_mul (Num (- 1)) (shortAmount sim))
                                           (js_div (fundingRate sim) (Num 100)))
                                   (Num (real day))
                       else Num 0);
         totalValue = js_add (js_add (js_add lpValue earnedFees) shortPnl) fundingPnl
     in \<lparr> progress = progress, currentPriceA = currentPriceA, currentPriceB = currentPriceB,
          day_holdValue = holdValue, day_earnedFees = earnedFees, lpValue = lpValue,
          day_shortPnl = shortPnl, day_fundingPnl = fundingPnl, totalValue = totalValue \<rparr>)"

text \<open>The object pushed onto \<^verbatim>\<open>dataPoints\<close>.\<close>

record chart_point =
  pt_day :: jsnum
  pt_totalValue :: jsnum
  pt_holdValue :: jsnum
  pt_earnedFees :: jsnum

definition chartPoint :: "simulation \<Rightarrow> jsnum \<Rightarrow> jsnum \<Rightarrow> jsnum \<Rightarrow> nat \<Rightarrow> chart_point" where
  "chartPoint sim amtA amtB invest day =
    (let l = dayLocals sim amtA amtB invest day
     in \<lparr> pt_day = Num (real day), pt_totalValue = totalValue l,
          pt_holdValue = day_holdValue l, pt_earnedFees = day_earnedFees l \<rparr>)"

text \<open>
  The loop \<^verbatim>\<open>for (let day = 0; day <= duration; day++) dataPoints.push(...)\<close>, with the
  loop body as a parameter. The counter takes the values 0, 1, 2, ... and is a \<open>nat\<close>.
  For \<^verbatim>\<open>duration = Infinity\<close> the test never fails, so the loop is a partial function:
  \<open>None\<close> stands for a run that does not return.
\<close>

partial_function (option) chartLoop ::
  "jsnum \<Rightarrow> (nat \<Rightarrow> 'a) \<Rightarrow> nat \<Rightarrow> 'a list \<Rightarrow> 'a list option" where
  "chartLoop dur body day dataPoints =
     (if js_le (Num (real day)) dur
      then chartLoop dur body (Suc day) (dataPoints @ [body day])
      else Some dataPoints)"

definition chartData :: "simulation \<Rightarrow> chart_point list option" where
  "chartData sim =
    (if js_le (duration sim) (Num 0) \<or> \<not> truthy (amountA sim) \<or> \<not> truthy (amountB sim)
     then Some []
     else (case (amountA sim, amountB sim) of
             (Some amtA, Some amtB) \<Rightarrow>
               (let invest = js_add (js_mul amtA (initialPriceA sim))
                                 (js_mul amtB (initialPriceB sim))
                in chartLoop (duration sim) (chartPoint sim amtA amtB invest) 0 [])
           | _ \<Rightarrow> Some []))"

section \<open>The bound converter\<close>

text \<open>
  The numeric part of \<^verbatim>\<open>handleInputChange\<close> for the four range inputs; \<open>numValue\<close>
  is \<^verbatim>\<open>parseFloat(value)\<close>. For the keys \<^verbatim>\<open>lowerPriceBound\<close> and
  \<^verbatim>\<open>upperPriceBound\<close> the result is the local \<^verbatim>\<open>pct\<close> (which the source then only
  formats for display with \<^verbatim>\<open>toFixed(2)\<close>), for the keys \<^verbatim>\<open>pctLower\<close> and
  \<^verbatim>\<open>pctUpper\<close> it is the local \<^verbatim>\<open>newPriceBound\<close> that is stored in the simulation.
  \<open>None\<close> means that the branch is not taken and nothing is computed.
\<close>

definition initialPriceRatioOf :: "simulation \<Rightarrow> jsnum" where
  "initialPriceRatioOf sim =
     (if js_gt (initialPriceB sim) (Num 0)
      then js_div (initialPriceA sim) (initialPriceB sim) else Num 0)"





section \<open>The list of simulations\<close>






text \<open>
  The simulation that \<^verbatim>\<open>addSimulation\<close> creates and puts in front of the list;
  \<open>now\<close> is \<^verbatim>\<open>Date.now().toString()\<close> and \<open>today\<close> the ISO date.
\<close>

definition newSimulation :: "string \<Rightarrow> string \<Rightarrow> simulation" where
  "newSimulation now today =
    \<lparr> id_sim = now, protocol = ''Uniswap V3'', tokenA = ''ETH'', tokenB = ''USDC'',
      initialInvestment_opt = None,
      amountA = Some (js_div (js_div (Num 1000) (Num 2)) (Num 3000)),
      amountB = Some (js_div (js_div (Num 1000) (Num 2)) (Num 1)),
      apr = Num 25, duration = Num 30,
      lowerPriceBound = Num 2400, upperPriceBound = Num 3600,
      startDate = today,
      initialPriceA = Num 3000, initialPriceB = Num 1,
      latestPriceA = Num 3000, latestPriceB = Num 1,
      tradeVolume = Some (Num 1000000), volumeFee = Some (Num (3 / 10)),
      isHedgeEnabled = Some False,
      shortAmount = js_div (Num 1000) (Num 2), fundingRate = Num (1 / 100),
      shortToken = A \<rparr>"

definition addSimulation :: "string \<Rightarrow> string \<Rightarrow> simulation list \<Rightarrow> simulation list" where
  "addSimulation now today prev = newSimulation now today # prev"


section \<open>Notions used in the statements\<close>

text \<open>
  The latest price ratio, the local \<^verbatim>\<open>latestPriceRatio\<close> of \<^verbatim>\<open>calculations\<close>, and the
  ratio of one day, the local \<^verbatim>\<open>currentPriceRatio\<close> of the loop of \<^verbatim>\<open>chartData\<close>.
\<close>

definition latestPriceRatioOf :: "simulation \<Rightarrow> jsnum" where
  "latestPriceRatioOf sim =
     (if js_gt (latestPriceB sim) (Num 0)
      then js_div (latestPriceA sim) (latestPriceB sim) else Num 0)"




subsection \<open>Concrete positions\<close>

text \<open>
  The position of the two scenarios of the specification, over any simulation
  \<open>base\<close> that supplies the fields the scenarios leave open.
\<close>

definition scenario :: "simulation \<Rightarrow> simulation" where
  "scenario base = base
     \<lparr> amountA := Some (Num (1 / 2)), initialPriceA := Num 3000,
       amountB := Some (Num 1500), initialPriceB := Num 1,
       apr := Num 25, duration := Num 30,
       lowerPriceBound := Num 2400, upperPriceBound := Num 3600,
       latestPriceA := Num 3000, latestPriceB := Num 1 \<rparr>"

definition hedgeScenario :: "simulation \<Rightarrow> simulation" where
  "hedgeScenario base = (scenario base)
     \<lparr> isHedgeEnabled := Some True, shortToken := A, shortAmount := Num 1500,
       fundingRate := Num (1 / 100), latestPriceA := Num 2700 \<rparr>"

text \<open>
  The default position over two days; the same with token A at four times its initial
  price; and the same with a token B whose initial price is 0 and whose latest price
  is 2, over one day.
\<close>

definition twoDays :: simulation where
  "twoDays = (newSimulation ''1'' ''2025-01-01'') \<lparr> duration := Num 2 \<rparr>"

definition quadrupled :: simulation where
  "quadrupled = twoDays \<lparr> latestPriceA := Num 12000 \<rparr>"

definition zeroPriceB :: simulation where
  "zeroPriceB = (newSimulation ''1'' ''2025-01-01'')
     \<lparr> duration := Num 1, initialPriceB := Num 0, latestPriceB := Num 2 \<rparr>"

section \<open>The loop returns\<close>

lemma day_le_floor: "(real day \<le> d) = (day < nat (\<lfloor>d\<rfloor> + 1))"
  by linarith

lemma chartLoop_Num:
  "chartLoop (Num d) body day acc = Some (acc @ map body [day ..< nat (\<lfloor>d\<rfloor> + 1)])"
proof (induction "nat (\<lfloor>d\<rfloor> + 1) - day" arbitrary: day acc)
  case 0
  then have "\<not> real day \<le> d" by (simp add: day_le_floor)
  with 0 show ?case by (subst chartLoop.simps) simp
next
  case (Suc n)
  then have lt: "day < nat (\<lfloor>d\<rfloor> + 1)" by simp
  then have le: "real day \<le> d" by (simp add: day_le_floor)
  from Suc have "n = nat (\<lfloor>d\<rfloor> + 1) - Suc day" by simp
  from Suc.hyps(1)[OF this]
  have "chartLoop (Num d) body (Suc day) (acc @ [body day]) =
          Some ((acc @ [body day]) @ map body [Suc day ..< nat (\<lfloor>d\<rfloor> + 1)])" .
  with le lt show ?case
    by (subst chartLoop.simps) (simp add: upt_conv_Cons)
qed

lemma chartLoop_of_nat:
  "chartLoop (Num (real n)) body 0 [] = Some (map body [0 ..< Suc n])"
proof -
  have "nat (\<lfloor>real n\<rfloor> + 1) = Suc n" by simp
  then show ?thesis using chartLoop_Num [of "real n" body 0 "[]"] by (simp del: upt_Suc)
qed

lemma chartLoop_NaN: "chartLoop NaN body day acc = Some acc"
  by (subst chartLoop.simps) simp

lemma chartLoop_NInf: "chartLoop NInf body day acc = Some acc"
  by (subst chartLoop.simps) simp

text \<open>
  For a duration that is an ordinary number \<open>d > 0\<close>, whole or not, the loop runs for
  the days 0, ..., \<open>\<lfloor>d\<rfloor>\<close>.
\<close>

lemma chartData_floor:
  assumes "duration sim = Num d" "0 < d" "truthy (amountA sim)" "truthy (amountB sim)"
  shows "\<exists>pts. chartData sim = Some pts \<and> length pts = nat \<lfloor>d\<rfloor> + 1 \<and>
           map pt_day pts = map (\<lambda>k. Num (real k)) [0 ..< nat \<lfloor>d\<rfloor> + 1]"
proof -
  from assms(3,4) obtain a b where ab: "amountA sim = Some a" "amountB sim = Some b"
    by (cases "amountA sim"; cases "amountB sim") auto
  define body where "body = chartPoint sim a b
      (js_add (js_mul a (initialPriceA sim)) (js_mul b (initialPriceB sim)))"
  have n: "nat (\<lfloor>d\<rfloor> + 1) = nat \<lfloor>d\<rfloor> + 1"
    using assms(2) by linarith
  have cd: "chartData sim = Some (map body [0 ..< nat \<lfloor>d\<rfloor> + 1])"
    using assms ab by (simp add: chartData_def chartLoop_Num body_def n del: upt_Suc)
  have "map pt_day (map body [0 ..< nat \<lfloor>d\<rfloor> + 1]) =
          map (\<lambda>k. Num (real k)) [0 ..< nat \<lfloor>d\<rfloor> + 1]"
    by (simp add: body_def chartPoint_def Let_def del: upt_Suc)
  with cd show ?thesis by (simp del: upt_Suc)
qed

section \<open>The factor on ordinary numbers\<close>

lemma il_real: "0 \<le> k \<Longrightarrow> impermanentLossFactor (Num k) = Num (2 * sqrt k / (1 + k) - 1)"
  by (simp add: impermanentLossFactor_def js_sub_def)

section \<open>The fields of a snapshot\<close>


lemma calc_holdValue:
  "holdValue (calculations sim) =
     js_add (js_mul (nullish_zero (amountA sim)) (latestPriceA sim))
            (js_mul (nullish_zero (amountB sim)) (latestPriceB sim))"
  by (simp add: calculations_def Let_def)

lemma calc_finalLpValue:
  "finalLpValue (calculations sim) =
     (if js_gt (initialPriceRatioOf sim) (Num 0) \<and> js_gt (latestPriceRatioOf sim) (Num 0) \<and>
         js_gt (upperPriceBound sim) (lowerPriceBound sim)
      then js_mul (holdValue (calculations sim))
             (js_add (Num 1) (impermanentLossFactor
                (js_div (latestPriceRatioOf sim) (initialPriceRatioOf sim))))
      else holdValue (calculations sim))"
  by (simp add: calculations_def Let_def initialPriceRatioOf_def latestPriceRatioOf_def)












section \<open>The locals of one day\<close>










lemma shortPnlOf_bounds:
  "shortPnlOf (sim\<lparr>lowerPriceBound := lo, upperPriceBound := hi\<rparr>) priceA priceB =
   shortPnlOf sim priceA priceB"
  by (cases "shortToken sim") (simp_all add: shortPnlOf_def)

lemma dayLocals_bounds:
  "dayLocals (sim\<lparr>lowerPriceBound := lo, upperPriceBound := hi\<rparr>) a b iv d =
   dayLocals sim a b iv d"
  by (simp add: dayLocals_def shortPnlOf_bounds Let_def cong: if_cong split del: if_split)

lemma chartPoint_bounds:
  "chartPoint (sim\<lparr>lowerPriceBound := lo, upperPriceBound := hi\<rparr>) = chartPoint sim"
  by (intro ext) (simp only: chartPoint_def dayLocals_bounds)

section \<open>Ordinary numbers stay ordinary\<close>


















section \<open>The claims\<close>

lemmas examples = twoDays_def quadrupled_def zeroPriceB_def newSimulation_def

lemmas ratio_defs = initialPriceRatioOf_def latestPriceRatioOf_def js_gt_def js_ge_def js_sub_def

lemmas engine_defs = calculations_def chartPoint_def dayLocals_def impermanentLossFactor_def
  shortPnlOf_def Let_def


lemma upt_2: "[0 ..< 2] = [0, 1 :: nat]"
  by (simp add: upt_rec)

lemma chartData_zeroPriceB:
  "chartData zeroPriceB =
     Some [\<lparr>pt_day = Num 0, pt_totalValue = Num 1000, pt_holdValue = Num 1000,
             pt_earnedFees = Num 0\<rparr>,
           \<lparr>pt_day = Num 1, pt_totalValue = Num (73025 / 73), pt_holdValue = Num 1000,
             pt_earnedFees = Num (25 / 73)\<rparr>]"
  by (simp add: examples ratio_defs chartData_def chartLoop_of_nat [of 1, simplified]
        engine_defs)


text \<open>
  C1. When the initial ratio and the latest ratio are both positive and the upper bound
  is strictly above the lower bound, the final LP value of the snapshot is the hold value
  times one plus the factor of \<open>k\<close>, the latest ratio over the initial ratio; when one
  of the three conditions fails it is the hold value. On an ordinary number \<open>k \<ge> 0\<close>
  the factor is \<open>2 * sqrt k / (1 + k) - 1\<close>, so that for ordinary amounts and positive
  ordinary prices the final LP value is the real number that the formula gives.
\<close>

theorem finalLpValue_cases:
  "(js_gt (initialPriceRatioOf sim) (Num 0) \<and> js_gt (latestPriceRatioOf sim) (Num 0) \<and>
    js_gt (upperPriceBound sim) (lowerPriceBound sim) \<longrightarrow>
      finalLpValue (calculations sim) =
        js_mul (holdValue (calculations sim))
          (js_add (Num 1)
            (impermanentLossFactor
              (js_div (latestPriceRatioOf sim) (initialPriceRatioOf sim))))) \<and>
   (\<not> (js_gt (initialPriceRatioOf sim) (Num 0) \<and> js_gt (latestPriceRatioOf sim) (Num 0) \<and>
       js_gt (upperPriceBound sim) (lowerPriceBound sim)) \<longrightarrow>
      finalLpValue (calculations sim) = holdValue (calculations sim)) \<and>
   (\<forall>k\<ge>0. impermanentLossFactor (Num k) = Num (2 * sqrt k / (1 + k) - 1)) \<and>
   (nullish_zero (amountA sim) = Num a \<and> nullish_zero (amountB sim) = Num b \<and>
    initialPriceA sim = Num iA \<and> initialPriceB sim = Num iB \<and>
    latestPriceA sim = Num lA \<and> latestPriceB sim = Num lB \<and>
    0 < iA \<and> 0 < iB \<and> 0 < lA \<and> 0 < lB \<and>
    js_gt (upperPriceBound sim) (lowerPriceBound sim) \<longrightarrow>
      finalLpValue (calculations sim) =
        Num ((a * lA + b * lB) *
             (1 + (2 * sqrt (lA / lB / (iA / iB)) / (1 + lA / lB / (iA / iB)) - 1))))"
proof (intro conjI impI allI)
  show "finalLpValue (calculations sim) =
        js_mul (holdValue (calculations sim))
          (js_add (Num 1)
            (impermanentLossFactor
              (js_div (latestPriceRatioOf sim) (initialPriceRatioOf sim))))"
    if "js_gt (initialPriceRatioOf sim) (Num 0) \<and> js_gt (latestPriceRatioOf sim) (Num 0) \<and>
        js_gt (upperPriceBound sim) (lowerPriceBound sim)"
    using that by (simp add: calc_finalLpValue)
  show "finalLpValue (calculations sim) = holdValue (calculations sim)"
    if "\<not> (js_gt (initialPriceRatioOf sim) (Num 0) \<and> js_gt (latestPriceRatioOf sim) (Num 0) \<and>
        js_gt (upperPriceBound sim) (lowerPriceBound sim))"
    using that by (simp only: calc_finalLpValue if_False)
  show "impermanentLossFactor (Num k) = Num (2 * sqrt k / (1 + k) - 1)" if "0 \<le> k" for k
    using that by (rule il_real)
  show "finalLpValue (calculations sim) =
        Num ((a * lA + b * lB) *
             (1 + (2 * sqrt (lA / lB / (iA / iB)) / (1 + lA / lB / (iA / iB)) - 1)))"
    if h: "nullish_zero (amountA sim) = Num a \<and> nullish_zero (amountB sim) = Num b \<and>
        initialPriceA sim = Num iA \<and> initialPriceB sim = Num iB \<and>
        latestPriceA sim = Num lA \<and> latestPriceB sim = Num lB \<and>
        0 < iA \<and> 0 < iB \<and> 0 < lA \<and> 0 < lB \<and>
        js_gt (upperPriceBound sim) (lowerPriceBound sim)"
  proof -
    define r0 where "r0 = iA / iB"
    define r1 where "r1 = lA / lB"
    from h have ri: "initialPriceRatioOf sim = Num r0" "0 < r0"
      and rl: "latestPriceRatioOf sim = Num r1" "0 < r1"
      by (simp_all add: ratio_defs r0_def r1_def)
    then have k: "0 \<le> r1 / r0" by simp
    have hold: "holdValue (calculations sim) = Num (a * lA + b * lB)"
      using h by (simp add: calc_holdValue)
    have "finalLpValue (calculations sim) =
            Num ((a * lA + b * lB) * (1 + (2 * sqrt (r1 / r0) / (1 + r1 / r0) - 1)))"
      unfolding calc_finalLpValue ri(1) rl(1) hold
      using h ri(2) rl(2) il_real [OF k] by (simp add: js_gt_def)
    then show ?thesis by (simp only: r0_def r1_def)
  qed
qed

theorem finalLpValue_cases_witness:
  "js_gt (initialPriceRatioOf quadrupled) (Num 0) \<and>
   js_gt (latestPriceRatioOf quadrupled) (Num 0) \<and>
   js_gt (upperPriceBound quadrupled) (lowerPriceBound quadrupled) \<and>
   holdValue (calculations quadrupled) = Num 2500 \<and>
   js_div (latestPriceRatioOf quadrupled) (initialPriceRatioOf quadrupled) = Num 4 \<and>
   impermanentLossFactor (Num 4) = Num (- (1 / 5)) \<and>
   finalLpValue (calculations quadrupled) = Num 2000 \<and>
   finalLpValue (calculations (quadrupled\<lparr>upperPriceBound := Num 2400\<rparr>)) = Num 2500"
proof -
  have h: "js_gt (initialPriceRatioOf quadrupled) (Num 0)"
    "js_gt (latestPriceRatioOf quadrupled) (Num 0)"
    "js_gt (upperPriceBound quadrupled) (lowerPriceBound quadrupled)"
    "\<not> js_gt (upperPriceBound (quadrupled\<lparr>upperPriceBound := Num 2400\<rparr>))
            (lowerPriceBound (quadrupled\<lparr>upperPriceBound := Num 2400\<rparr>))"
    by (simp_all add: examples ratio_defs)
  have k: "js_div (latestPriceRatioOf quadrupled) (initialPriceRatioOf quadrupled) = Num 4"
    by (simp add: examples ratio_defs)
  have hold: "holdValue (calculations quadrupled) = Num 2500"
    "holdValue (calculations (quadrupled\<lparr>upperPriceBound := Num 2400\<rparr>)) = Num 2500"
    by (simp_all add: examples calc_holdValue)
  have il: "impermanentLossFactor (Num 4) = Num (- (1 / 5))"
    using finalLpValue_cases [where sim = quadrupled] by simp
  show ?thesis
    using finalLpValue_cases [where sim = quadrupled, THEN conjunct1]
      finalLpValue_cases [where sim = "quadrupled\<lparr>upperPriceBound := Num 2400\<rparr>",
        THEN conjunct2, THEN conjunct1] h k hold il
    by simp
qed




text \<open>
  C3. For the position of the first scenario the snapshot has an initial investment of
  3000, a hold value of 3000, a factor of 0 and no impermanent loss, earned fees of
  \<open>4500 / 73\<close>, which is 61.64 to two decimals, and the same LP net return; for the
  hedged position of the second scenario it has a short profit of 150 and a funding
  term of \<open>-4.5\<close>.
\<close>

theorem scenario_values:
  "initialInvestment (calculations (scenario base)) = Num 3000 \<and>
   holdValue (calculations (scenario base)) = Num 3000 \<and>
   impermanentLossFactor
     (js_div (latestPriceRatioOf (scenario base)) (initialPriceRatioOf (scenario base))) = Num 0 \<and>
   impermanentLoss (calculations (scenario base)) = Num 0 \<and>
   finalLpValue (calculations (scenario base)) = Num 3000 \<and>
   earnedFees (calculations (scenario base)) = Num (4500 / 73) \<and>
   lpNetReturn (calculations (scenario base)) = Num (4500 / 73) \<and>
   \<bar>4500 / 73 - 61.64\<bar> < (0.005 :: real) \<and>
   shortPnl (calculations (hedgeScenario base)) = Num 150 \<and>
   fundingPnl (calculations (hedgeScenario base)) = Num (- 4.5)"
  by (simp add: scenario_def hedgeScenario_def ratio_defs engine_defs)

theorem scenario_values_witness:
  "earnedFees (calculations (scenario (newSimulation ''1'' ''2025-01-01''))) = Num (4500 / 73) \<and>
   lpNetReturn (calculations (scenario (newSimulation ''1'' ''2025-01-01''))) = Num (4500 / 73) \<and>
   shortPnl (calculations (hedgeScenario (newSimulation ''1'' ''2025-01-01''))) = Num 150 \<and>
   fundingPnl (calculations (hedgeScenario (newSimulation ''1'' ''2025-01-01''))) = Num (- 4.5)"
  using scenario_values [of "newSimulation ''1'' ''2025-01-01''"] by simp







text \<open>
  C7. For every ordinary number \<open>k > 0\<close> the factor of \<open>1 / k\<close> is the factor of
  \<open>k\<close>.
\<close>

theorem impermanentLossFactor_reciprocal:
  "0 < k \<Longrightarrow> impermanentLossFactor (js_div (Num 1) (Num k)) = impermanentLossFactor (Num k)"
proof -
  assume k: "0 < k"
  have sq: "0 < sqrt k" using k by simp
  have "sqrt (1 / k) = 1 / sqrt k" by (simp add: real_sqrt_divide)
  moreover have "2 * (1 / sqrt k) / (1 + 1 / k) = 2 * (k / sqrt k) / (1 + k)"
    using k sq by (simp add: field_simps)
  moreover have "k / sqrt k = sqrt k" using k by (simp add: real_div_sqrt)
  ultimately have "2 * sqrt (1 / k) / (1 + 1 / k) - 1 = 2 * sqrt k / (1 + k) - 1"
    by (simp only:)
  then show ?thesis using k by (simp add: il_real)
qed

theorem impermanentLossFactor_reciprocal_witness:
  "(0 :: real) < 4 \<and> js_div (Num 1) (Num 4) = Num (1 / 4) \<and>
   impermanentLossFactor (Num (1 / 4)) = impermanentLossFactor (Num 4) \<and>
   impermanentLossFactor (Num 4) = Num (- (1 / 5))"
proof -
  have "impermanentLossFactor (Num 4) = Num (- (1 / 5))"
    by (simp add: il_real)
  then show ?thesis
    using impermanentLossFactor_reciprocal [of 4] by simp
qed



text \<open>
  C9. Two positions that differ only in their lower and upper price bounds have the same
  projection: the same points, with the same day, total value, hold value and earned
  fees. The final LP value of the snapshot does depend on the bounds.
\<close>

theorem projection_ignores_bounds:
  "chartData (sim\<lparr>lowerPriceBound := lo, upperPriceBound := hi\<rparr>) = chartData sim \<and>
   (\<exists>s l h. finalLpValue (calculations (s\<lparr>lowerPriceBound := l, upperPriceBound := h\<rparr>)) \<noteq>
            finalLpValue (calculations s))"
proof
  show "chartData (sim\<lparr>lowerPriceBound := lo, upperPriceBound := hi\<rparr>) = chartData sim"
    by (simp add: chartData_def chartPoint_bounds Let_def split: option.split)
next
  have "finalLpValue (calculations quadrupled) = Num 2000"
    by (simp add: examples ratio_defs calc_finalLpValue calc_holdValue il_real)
  moreover have "finalLpValue (calculations
      (quadrupled\<lparr>lowerPriceBound := Num 3600, upperPriceBound := Num 2400\<rparr>)) = Num 2500"
    by (simp add: examples ratio_defs calc_finalLpValue calc_holdValue)
  ultimately have "finalLpValue (calculations
      (quadrupled\<lparr>lowerPriceBound := Num 3600, upperPriceBound := Num 2400\<rparr>)) \<noteq>
      finalLpValue (calculations quadrupled)"
    by simp
  then show "\<exists>s l h. finalLpValue (calculations (s\<lparr>lowerPriceBound := l, upperPriceBound := h\<rparr>)) \<noteq>
            finalLpValue (calculations s)"
    by blast
qed

theorem projection_ignores_bounds_witness:
  "chartData (zeroPriceB\<lparr>lowerPriceBound := Num 3600, upperPriceBound := Num 2400\<rparr>) =
     Some [\<lparr>pt_day = Num 0, pt_totalValue = Num 1000, pt_holdValue = Num 1000,
             pt_earnedFees = Num 0\<rparr>,
           \<lparr>pt_day = Num 1, pt_totalValue = Num (73025 / 73), pt_holdValue = Num 1000,
             pt_earnedFees = Num (25 / 73)\<rparr>]"
  using projection_ignores_bounds [where sim = zeroPriceB and lo = "Num 3600" and hi = "Num 2400"]
  by (simp add: chartData_zeroPriceB)



end
